theory Spec2Isabelle
  imports Complex_Main "HOL-Library.Sublist"
begin

section \<open>Exceptions\<close>

text \<open>
  The Python exceptions that the modelled code can meet. Every raise of the source is a
  branch of the model that returns \<open>Inl\<close> of one of these.
\<close>

datatype exn =
    QueueEmpty
  | QueueFull
  | DecodeError
  | InferenceError
  | IndexError
  | ValueError
  | ZeroDivisionError
  | LoadError

section \<open>The detector (yolo_detector.py)\<close>

text \<open>
  A PIL image is kept abstract: its size \<open>(width, height)\<close> and an opaque content.
\<close>

datatype image = Image (img_size: "nat \<times> nat") (img_content: "nat list")

text \<open>
  What \<open>detect_objects\<close> accepts: a base64 string, a numpy array or a PIL image.
\<close>

datatype image_arg = ImgStr string | ImgArray image | ImgPIL image

text \<open>One row of \<open>results[0].boxes\<close>: \<open>xyxy[i]\<close>, \<open>conf[i]\<close>, \<open>cls[i]\<close>.\<close>

record raw_box =
  xyxy :: "real \<times> real \<times> real \<times> real"
  conf :: real
  cls :: int

record bbox =
  x1 :: real
  y1 :: real
  x2 :: real
  y2 :: real
  width :: real
  height :: real

record detection =
  class_id :: int
  class_name :: string
  confidence :: real
  bbox :: bbox

record detection_result =
  detections :: "detection list"
  processing_time :: real
  fps :: real
  image_size :: "nat \<times> nat"
  detection_count :: int

text \<open>
  The fields of \<open>YOLODetector\<close>. \<open>model\<close> is the loaded network, an external
  capability: given the preprocessed image it raises or returns a list of results, each
  with its \<open>boxes\<close> (possibly \<open>None\<close>).
\<close>

record yolo_detector =
  conf_threshold :: real
  target_size :: "nat \<times> nat"
  target_fps :: nat
  frame_interval :: real
  class_names :: "string list"
  model :: "image \<Rightarrow> exn + raw_box list option list"

text \<open>The class names assigned in \<open>__init__\<close>.\<close>

definition coco_class_names :: "string list" where
  "coco_class_names =
     [''person'', ''bicycle'', ''car'', ''motorcycle'', ''airplane'', ''bus'', ''train'', ''truck'',
      ''boat'', ''traffic light'', ''fire hydrant'', ''stop sign'', ''parking meter'', ''bench'',
      ''bird'', ''cat'', ''dog'', ''horse'', ''sheep'', ''cow'', ''elephant'', ''bear'', ''zebra'',
      ''giraffe'', ''backpack'', ''umbrella'', ''handbag'', ''tie'', ''suitcase'', ''frisbee'',
      ''skis'', ''snowboard'', ''sports ball'', ''kite'', ''baseball bat'', ''baseball glove'',
      ''skateboard'', ''surfboard'', ''tennis racket'', ''bottle'', ''wine glass'', ''cup'',
      ''fork'', ''knife'', ''spoon'', ''bowl'', ''banana'', ''apple'', ''sandwich'', ''orange'',
      ''broccoli'', ''carrot'', ''hot dog'', ''pizza'', ''donut'', ''cake'', ''chair'', ''couch'',
      ''potted plant'', ''bed'', ''dining table'', ''toilet'', ''tv'', ''laptop'', ''mouse'',
      ''remote'', ''keyboard'', ''cell phone'', ''microwave'', ''oven'', ''toaster'', ''sink'',
      ''refrigerator'', ''book'', ''clock'', ''vase'', ''scissors'', ''teddy bear'', ''hair drier'',
      ''toothbrush'']"

text \<open>
  \<open>YOLODetector.__init__\<close>. Loading the network (\<open>YOLO(model_path)\<close>) either raises
  or gives the network; \<open>1.0 / target_fps\<close> raises on \<open>target_fps = 0\<close>, before the
  network is loaded.
\<close>

definition YOLODetector ::
  "(exn + (image \<Rightarrow> exn + raw_box list option list)) \<Rightarrow> real \<Rightarrow> nat \<times> nat \<Rightarrow> nat
     \<Rightarrow> exn + yolo_detector" where
  "YOLODetector loaded threshold sz fps_target =
     (if fps_target = 0 then Inl ZeroDivisionError
      else
        (case loaded of
           Inl e \<Rightarrow> Inl e
         | Inr m \<Rightarrow>
             Inr \<lparr>conf_threshold = threshold, target_size = sz, target_fps = fps_target,
                  frame_interval = 1 / real fps_target, class_names = coco_class_names,
                  model = m\<rparr>))"

text \<open>
  The library calls of \<open>detect_objects\<close> that can fail on the payload:
  \<open>Image.open(BytesIO(base64.b64decode(...)))\<close>.
\<close>

record lib =
  image_open :: "string \<Rightarrow> exn + image"

text \<open>\<open>image.split(',')[-1]\<close>: the part after the last comma.\<close>

definition split_last :: "string \<Rightarrow> string" where
  "split_last s = rev (takeWhile (\<lambda>c. c \<noteq> CHR '','') (rev s))"

text \<open>
  \<open>image.resize(size, LANCZOS)\<close>: PIL raises \<open>ValueError\<close> on a dimension that
  is not positive, and otherwise returns an image of exactly that size.
\<close>

definition resize :: "image \<Rightarrow> nat \<times> nat \<Rightarrow> exn + image" where
  "resize img sz =
     (if fst sz = 0 \<or> snd sz = 0 then Inl ValueError
      else Inr (Image sz (img_content img)))"

definition preprocess_image :: "yolo_detector \<Rightarrow> image \<Rightarrow> exn + image" where
  "preprocess_image self img = resize img (target_size self)"

text \<open>Decimal rendering of an integer, for the f-string \<open>f'class_{cls}'\<close>.\<close>

fun digits :: "nat \<Rightarrow> nat \<Rightarrow> string" where
  "digits 0 n = []"
| "digits (Suc k) n =
     (if n < 10 then [char_of (48 + n)]
      else digits k (n div 10) @ [char_of (48 + n mod 10)])"

definition str_int :: "int \<Rightarrow> string" where
  "str_int i = (if i < 0 then CHR ''-'' # digits (Suc (nat (- i))) (nat (- i))
                else digits (Suc (nat i)) (nat i))"

text \<open>
  \<open>self.class_names[cls] if cls < len(self.class_names) else f'class_{cls}'\<close>.
  A negative index counts from the end of the list and raises \<open>IndexError\<close> below
  \<open>-len\<close>.
\<close>

definition lookup_class_name :: "string list \<Rightarrow> int \<Rightarrow> exn + string" where
  "lookup_class_name names c =
     (let n = int (length names) in
      if c < n then
        (if 0 \<le> c then Inr (names ! nat c)
         else if - n \<le> c then Inr (names ! nat (n + c))
         else Inl IndexError)
      else Inr (''class_'' @ str_int c))"

text \<open>The body of the loop over the boxes: one detection from one box.\<close>

definition make_detection :: "yolo_detector \<Rightarrow> image \<Rightarrow> raw_box \<Rightarrow> exn + detection" where
  "make_detection self processed_image box =
     (case xyxy box of (bx1, by1, bx2, by2) \<Rightarrow>
        let img_width = real (fst (img_size processed_image));
            img_height = real (snd (img_size processed_image));
            x1_norm = bx1 / img_width;
            y1_norm = by1 / img_height;
            x2_norm = bx2 / img_width;
            y2_norm = by2 / img_height
        in case lookup_class_name (class_names self) (cls box) of
             Inl e \<Rightarrow> Inl e
           | Inr name \<Rightarrow>
               Inr \<lparr>class_id = cls box, class_name = name, confidence = conf box,
                    bbox = \<lparr>x1 = x1_norm, y1 = y1_norm, x2 = x2_norm, y2 = y2_norm,
                            width = x2_norm - x1_norm, height = y2_norm - y1_norm\<rparr>\<rparr>)"

text \<open>\<open>for i in range(len(boxes))\<close>, appending to \<open>detections\<close>.\<close>

fun collect_detections ::
  "yolo_detector \<Rightarrow> image \<Rightarrow> raw_box list \<Rightarrow> detection list \<Rightarrow> exn + detection list" where
  "collect_detections self processed_image [] acc = Inr acc"
| "collect_detections self processed_image (box # boxes) acc =
     (case make_detection self processed_image box of
        Inl e \<Rightarrow> Inl e
      | Inr d \<Rightarrow> collect_detections self processed_image boxes (acc @ [d]))"

text \<open>The three input types of \<open>detect_objects\<close>.\<close>

definition load_image :: "lib \<Rightarrow> image_arg \<Rightarrow> exn + image" where
  "load_image l arg =
     (case arg of
        ImgStr s \<Rightarrow> image_open l (split_last s)
      | ImgArray a \<Rightarrow> Inr a
      | ImgPIL p \<Rightarrow> Inr p)"

text \<open>
  \<open>YOLODetector.detect_objects\<close>. The two readings of the clock, \<open>start_time\<close>
  and the one taken after the loop, are arguments.
\<close>

definition detect_objects ::
  "yolo_detector \<Rightarrow> lib \<Rightarrow> image_arg \<Rightarrow> real \<Rightarrow> real \<Rightarrow> exn + detection_result" where
  "detect_objects self l arg start_time end_time =
     (case load_image l arg of
        Inl e \<Rightarrow> Inl e
      | Inr img \<Rightarrow>
         (case preprocess_image self img of
            Inl e \<Rightarrow> Inl e
          | Inr processed_image \<Rightarrow>
             (case model self processed_image of
                Inl e \<Rightarrow> Inl e
              | Inr results \<Rightarrow>
                 (case (case results of
                          [] \<Rightarrow> Inr []
                        | r # _ \<Rightarrow>
                           (case r of
                              None \<Rightarrow> Inr []
                            | Some boxes \<Rightarrow> collect_detections self processed_image boxes []))
                  of
                    Inl e \<Rightarrow> Inl e
                  | Inr dets \<Rightarrow>
                     let pt = end_time - start_time;
                         f = (if pt > 0 then 1 / pt else 0)
                     in Inr \<lparr>detections = dets, processing_time = pt, fps = f,
                             image_size = img_size processed_image,
                             detection_count = int (length dets)\<rparr>))))"

section \<open>The detection server (detection_server.py)\<close>

subsection \<open>Configuration\<close>

definition TARGET_SIZE :: "nat \<times> nat" where
  "TARGET_SIZE = (320, 240)"

definition TARGET_FPS :: nat where
  "TARGET_FPS = 15"

definition CONF_THRESHOLD :: real where
  "CONF_THRESHOLD = 25 / 100"

text \<open>\<open>queue.Queue(maxsize=10)\<close>.\<close>

definition maxsize :: nat where
  "maxsize = 10"

subsection \<open>Data\<close>

text \<open>One value of the dictionary \<open>active_sessions\<close>.\<close>

record session_info =
  sid :: string
  joined_at :: real
  frame_count :: int
  last_detection :: "detection_result option"

text \<open>
  The \<open>data\<close> dictionary of a Socket.IO event; a key that is absent reads as
  \<open>None\<close> through \<open>data.get\<close>.
\<close>

record event_data =
  data_session_id :: "string option"
  data_image :: "string option"
  data_timestamp :: "real option"

text \<open>A queued request: \<open>(session_id, image_data, timestamp)\<close>.\<close>

type_synonym job = "string \<times> string \<times> real"

text \<open>The result dictionary after the worker has added its metadata.\<close>

record worker_result = detection_result +
  session_id :: string
  timestamp :: real
  processing_timestamp :: real

record detector_info =
  info_model :: string
  info_target_size :: "nat \<times> nat"
  info_target_fps :: nat
  info_conf_threshold :: real

record joined_info =
  joined_session_id :: string
  status :: string
  detector_info :: detector_info

text \<open>The dictionary sent when the queue is full.\<close>

record skipped_result =
  skipped_session_id :: string
  skipped_timestamp :: real
  skipped_error :: string
  skipped_detections :: "detection list"
  skipped_processing_time :: int
  skipped_fps :: int

record session_stats =
  stats_session_id :: string
  stats_uptime :: real
  stats_frame_count :: int
  stats_last_detection :: "detection_result option"
  stats_queue_size :: nat
  stats_active_sessions :: nat

datatype payload =
    ErrorMessage string
  | JoinedSession joined_info
  | DetectionResults worker_result
  | FrameSkipped skipped_result
  | SessionStats session_stats

text \<open>
  The calls made on the Socket.IO server, in order: \<open>sio.emit(event, payload, room=r)\<close>
  and \<open>sio.enter_room(sid, room)\<close>.
\<close>

datatype sio_call =
    Emit string payload string
  | EnterRoom string string

text \<open>
  The process-wide state: the global \<open>detector\<close>, the \<open>detection_queue\<close> (its
  items and its count of unfinished tasks), the dictionary \<open>active_sessions\<close> in
  insertion order, the calls made on \<open>sio\<close> so far, and whether the worker thread is
  still running.
\<close>

record server =
  detector :: "yolo_detector option"
  queue_items :: "job list"
  unfinished_tasks :: nat
  active_sessions :: "(string \<times> session_info) list"
  sio_calls :: "sio_call list"
  worker_alive :: bool

text \<open>
  \<open>initialize_detector\<close>: whether the model file exists and what loading it gives are
  arguments. It returns \<open>False\<close> and leaves \<open>detector\<close> alone when the file is
  missing or the constructor raises; the main program exits in that case and serves
  nothing.
\<close>

definition initialize_detector ::
  "bool \<Rightarrow> (exn + (image \<Rightarrow> exn + raw_box list option list)) \<Rightarrow> server \<Rightarrow> bool \<times> server" where
  "initialize_detector model_exists loaded st =
     (if \<not> model_exists then (False, st)
      else
        (case YOLODetector loaded CONF_THRESHOLD TARGET_SIZE TARGET_FPS of
           Inl e \<Rightarrow> (False, st)
         | Inr d \<Rightarrow> (True, st\<lparr>detector := Some d\<rparr>)))"

subsection \<open>Dictionary operations\<close>

text \<open>\<open>d[k] = v\<close>: an existing key keeps its position, a new key goes last.\<close>

fun dict_set :: "'k \<Rightarrow> 'v \<Rightarrow> ('k \<times> 'v) list \<Rightarrow> ('k \<times> 'v) list" where
  "dict_set k v [] = [(k, v)]"
| "dict_set k v (p # ps) = (if fst p = k then (k, v) # ps else p # dict_set k v ps)"

text \<open>\<open>del d[k]\<close>.\<close>

definition dict_del :: "'k \<Rightarrow> ('k \<times> 'v) list \<Rightarrow> ('k \<times> 'v) list" where
  "dict_del k ps = filter (\<lambda>p. fst p \<noteq> k) ps"

text \<open>\<open>k in d\<close>.\<close>

definition dict_mem :: "'k \<Rightarrow> ('k \<times> 'v) list \<Rightarrow> bool" where
  "dict_mem k ps = (k \<in> set (map fst ps))"

subsection \<open>The queue\<close>

text \<open>\<open>put_nowait\<close>: raises \<open>Full\<close> when the queue holds \<open>maxsize\<close> items.\<close>

definition put_nowait :: "job \<Rightarrow> server \<Rightarrow> exn + server" where
  "put_nowait j st =
     (if maxsize \<le> length (queue_items st) then Inl QueueFull
      else Inr (st\<lparr>queue_items := queue_items st @ [j],
                   unfinished_tasks := Suc (unfinished_tasks st)\<rparr>))"

text \<open>\<open>get(timeout=1)\<close>: raises \<open>Empty\<close> when nothing is there.\<close>

definition queue_get :: "server \<Rightarrow> exn + job \<times> server" where
  "queue_get st =
     (case queue_items st of
        [] \<Rightarrow> Inl QueueEmpty
      | j # q \<Rightarrow> Inr (j, st\<lparr>queue_items := q\<rparr>))"

text \<open>\<open>task_done\<close>: raises \<open>ValueError\<close> when called more often than \<open>put\<close>.\<close>

definition task_done :: "server \<Rightarrow> exn + server" where
  "task_done st =
     (if unfinished_tasks st = 0 then Inl ValueError
      else Inr (st\<lparr>unfinished_tasks := unfinished_tasks st - 1\<rparr>))"

subsection \<open>Event handlers\<close>

definition emit :: "string \<Rightarrow> payload \<Rightarrow> string \<Rightarrow> server \<Rightarrow> server" where
  "emit ev p room st = st\<lparr>sio_calls := sio_calls st @ [Emit ev p room]\<rparr>"

definition enter_room :: "string \<Rightarrow> string \<Rightarrow> server \<Rightarrow> server" where
  "enter_room c room st = st\<lparr>sio_calls := sio_calls st @ [EnterRoom c room]\<rparr>"

text \<open>Python's truth value of \<open>data.get(key)\<close>: \<open>None\<close> and \<open>''\<close> are false.\<close>

definition falsy :: "string option \<Rightarrow> bool" where
  "falsy v = (case v of None \<Rightarrow> True | Some s \<Rightarrow> s = [])"

definition connect :: "string \<Rightarrow> server \<Rightarrow> server" where
  "connect c st = st"

text \<open>The loop of \<open>disconnect\<close>: the first session whose \<open>sid\<close> is the client's.\<close>

fun find_session :: "string \<Rightarrow> (string \<times> session_info) list \<Rightarrow> string option" where
  "find_session c [] = None"
| "find_session c (p # ps) = (if sid (snd p) = c then Some (fst p) else find_session c ps)"

definition disconnect :: "string \<Rightarrow> server \<Rightarrow> server" where
  "disconnect c st =
     (case find_session c (active_sessions st) of
        None \<Rightarrow> st
      | Some session_to_remove \<Rightarrow>
          if session_to_remove \<noteq> [] then
            st\<lparr>active_sessions := dict_del session_to_remove (active_sessions st)\<rparr>
          else st)"

definition join_detection_session :: "string \<Rightarrow> event_data \<Rightarrow> real \<Rightarrow> server \<Rightarrow> server" where
  "join_detection_session c data now st =
     (case data_session_id data of
        None \<Rightarrow> emit ''error'' (ErrorMessage ''Session ID required'') c st
      | Some s \<Rightarrow>
          if s = [] then emit ''error'' (ErrorMessage ''Session ID required'') c st
          else
            let st1 = st\<lparr>active_sessions :=
                         dict_set s \<lparr>sid = c, joined_at = now, frame_count = 0,
                                     last_detection = None\<rparr> (active_sessions st)\<rparr>;
                st2 = enter_room c s st1
            in emit ''joined_session''
                 (JoinedSession
                    \<lparr>joined_session_id = s, status = ''ready'',
                     detector_info =
                       \<lparr>info_model = ''YOLOv5n'', info_target_size = TARGET_SIZE,
                        info_target_fps = TARGET_FPS,
                        info_conf_threshold = CONF_THRESHOLD\<rparr>\<rparr>)
                 c st2)"

text \<open>\<open>active_sessions[session_id]['frame_count'] += 1\<close>.\<close>

definition bump_frame_count :: "string \<Rightarrow> (string \<times> session_info) list \<Rightarrow> (string \<times> session_info) list" where
  "bump_frame_count s ps =
     map (\<lambda>p. if fst p = s then (fst p, (snd p)\<lparr>frame_count := frame_count (snd p) + 1\<rparr>) else p) ps"

definition process_frame :: "string \<Rightarrow> event_data \<Rightarrow> real \<Rightarrow> server \<Rightarrow> server" where
  "process_frame c data now st =
     (if detector st = None then
        emit ''error'' (ErrorMessage ''Detector not initialized'') c st
      else
        let ts = (case data_timestamp data of None \<Rightarrow> now | Some t \<Rightarrow> t) in
        if falsy (data_session_id data) \<or> falsy (data_image data) then
          emit ''error'' (ErrorMessage ''Session ID and image data required'') c st
        else
          (case (data_session_id data, data_image data) of
             (Some s, Some image_data) \<Rightarrow>
               if \<not> dict_mem s (active_sessions st) then
                 emit ''error'' (ErrorMessage ''Session not found'') c st
               else
                 let st1 = st\<lparr>active_sessions := bump_frame_count s (active_sessions st)\<rparr> in
                 (case put_nowait (s, image_data, ts) st1 of
                    Inr st2 \<Rightarrow> st2
                  | Inl e \<Rightarrow>
                      emit ''detection_results''
                        (FrameSkipped
                           \<lparr>skipped_session_id = s, skipped_timestamp = ts,
                            skipped_error = ''Detection queue full, frame skipped'',
                            skipped_detections = [], skipped_processing_time = 0,
                            skipped_fps = 0\<rparr>)
                        c st1)
           | _ \<Rightarrow> emit ''error'' (ErrorMessage ''Session ID and image data required'') c st))"

definition get_session_stats :: "string \<Rightarrow> event_data \<Rightarrow> real \<Rightarrow> server \<Rightarrow> server" where
  "get_session_stats c data now st =
     (case data_session_id data of
        None \<Rightarrow> emit ''error'' (ErrorMessage ''Session not found'') c st
      | Some s \<Rightarrow>
         (case map_of (active_sessions st) s of
            None \<Rightarrow> emit ''error'' (ErrorMessage ''Session not found'') c st
          | Some session_info \<Rightarrow>
              emit ''session_stats''
                (SessionStats
                   \<lparr>stats_session_id = s,
                    stats_uptime = now - joined_at session_info,
                    stats_frame_count = frame_count session_info,
                    stats_last_detection = last_detection session_info,
                    stats_queue_size = length (queue_items st),
                    stats_active_sessions = length (active_sessions st)\<rparr>)
                c st))"

subsection \<open>The detection worker\<close>

text \<open>
  What one pass through the body of \<open>while True\<close> did: found the queue empty, skipped
  the job because there is no detector, emitted the result, dropped it because the
  session is gone, caught an exception, or let an exception out of the handler (which
  ends the thread).
\<close>

datatype worker_outcome =
    Idle
  | Skipped
  | Published
  | Dropped
  | Failed exn
  | Crashed exn

text \<open>
  The \<open>except Exception\<close> clause: print, then \<open>task_done\<close> if the queue is not
  empty. An exception raised here leaves the loop.
\<close>

definition handle_exception :: "exn \<Rightarrow> server \<Rightarrow> worker_outcome \<times> server" where
  "handle_exception e st =
     (if queue_items st \<noteq> [] then
        (case task_done st of
           Inl e' \<Rightarrow> (Crashed e', st)
         | Inr st' \<Rightarrow> (Failed e, st'))
      else (Failed e, st))"

text \<open>The block under \<open>session_lock\<close>: emit to the room of the session if it is registered.\<close>

definition publish :: "worker_result \<Rightarrow> server \<Rightarrow> server" where
  "publish r st =
     (if dict_mem (session_id r) (active_sessions st) then
        emit ''detection_results'' (DetectionResults r) (session_id r) st
      else st)"

text \<open>
  One pass through the loop body of \<open>detection_worker\<close>. The three readings of the
  clock (two inside \<open>detect_objects\<close>, one for \<open>processing_timestamp\<close>) are
  arguments.
\<close>

definition detection_worker_step ::
  "lib \<Rightarrow> real \<Rightarrow> real \<Rightarrow> real \<Rightarrow> server \<Rightarrow> worker_outcome \<times> server" where
  "detection_worker_step l t0 t1 t2 st =
     (case queue_get st of
        Inl e \<Rightarrow> (Idle, st)
      | Inr ((s, image_data, ts), st1) \<Rightarrow>
         (case detector st1 of
            None \<Rightarrow> (Skipped, st1)
          | Some d \<Rightarrow>
             (case detect_objects d l (ImgStr image_data) t0 t1 of
                Inl e \<Rightarrow> handle_exception e st1
              | Inr results \<Rightarrow>
                  let r = \<lparr>detections = detections results,
                           processing_time = processing_time results,
                           fps = fps results,
                           image_size = image_size results,
                           detection_count = detection_count results,
                           session_id = s, timestamp = ts,
                           processing_timestamp = t2\<rparr>;
                      st2 = publish r st1
                  in (case task_done st2 of
                        Inl e \<Rightarrow> handle_exception e st2
                      | Inr st3 \<Rightarrow>
                          (if dict_mem s (active_sessions st1) then Published else Dropped,
                           st3)))))"

subsection \<open>Runs of the server\<close>

text \<open>
  The handlers and the worker take turns; each event carries the readings of the clock
  that its code makes.
\<close>

datatype event =
    Connect string
  | Disconnect string
  | JoinDetectionSession string event_data real
  | ProcessFrame string event_data real
  | GetSessionStats string event_data real
  | WorkerIteration real real real

fun handle_event :: "lib \<Rightarrow> event \<Rightarrow> server \<Rightarrow> server" where
  "handle_event l (Connect c) st = connect c st"
| "handle_event l (Disconnect c) st = disconnect c st"
| "handle_event l (JoinDetectionSession c d now) st = join_detection_session c d now st"
| "handle_event l (ProcessFrame c d now) st = process_frame c d now st"
| "handle_event l (GetSessionStats c d now) st = get_session_stats c d now st"
| "handle_event l (WorkerIteration t0 t1 t2) st =
     (if worker_alive st then
        (case detection_worker_step l t0 t1 t2 st of
           (Crashed e, st') \<Rightarrow> st'\<lparr>worker_alive := False\<rparr>
         | (_, st') \<Rightarrow> st')
      else st)"

fun run :: "lib \<Rightarrow> event list \<Rightarrow> server \<Rightarrow> server" where
  "run l [] st = st"
| "run l (e # es) st = run l es (handle_event l e st)"

text \<open>The state when the server starts to serve: \<open>initialize_detector\<close> has succeeded.\<close>

definition initial_server :: "yolo_detector \<Rightarrow> server" where
  "initial_server d =
     \<lparr>detector = Some d, queue_items = [], unfinished_tasks = 0, active_sessions = [],
      sio_calls = [], worker_alive = True\<rparr>"

subsection \<open>Observations on a run\<close>

text \<open>The jobs that an event puts on the queue: what \<open>put_nowait\<close> appended.\<close>

definition enqueued_by :: "event \<Rightarrow> server \<Rightarrow> job list" where
  "enqueued_by e st =
     (case e of
        ProcessFrame c d now \<Rightarrow>
          drop (length (queue_items st)) (queue_items (process_frame c d now st))
      | _ \<Rightarrow> [])"

fun accepted :: "lib \<Rightarrow> event list \<Rightarrow> server \<Rightarrow> job list" where
  "accepted l [] st = []"
| "accepted l (e # es) st = enqueued_by e st @ accepted l es (handle_event l e st)"

text \<open>The results that the worker has emitted, in order.\<close>

fun result_of_call :: "sio_call \<Rightarrow> worker_result list" where
  "result_of_call (Emit ev (DetectionResults r) room) = [r]"
| "result_of_call _ = []"

definition published_results :: "sio_call list \<Rightarrow> worker_result list" where
  "published_results calls = concat (map result_of_call calls)"

definition job_key :: "job \<Rightarrow> string \<times> real" where
  "job_key j = (fst j, snd (snd j))"

definition result_key :: "worker_result \<Rightarrow> string \<times> real" where
  "result_key r = (session_id r, timestamp r)"

definition for_session :: "string \<Rightarrow> (string \<times> real) list \<Rightarrow> (string \<times> real) list" where
  "for_session s ks = filter (\<lambda>k. fst k = s) ks"

text \<open>The calls added to \<open>sio\<close> by a run.\<close>

definition new_calls :: "server \<Rightarrow> server \<Rightarrow> sio_call list" where
  "new_calls st st' = drop (length (sio_calls st)) (sio_calls st')"

text \<open>The statistics replies among the calls.\<close>

fun stats_of_call :: "sio_call \<Rightarrow> session_stats list" where
  "stats_of_call (Emit ev (SessionStats s) room) = [s]"
| "stats_of_call _ = []"

definition reported_stats :: "sio_call list \<Rightarrow> session_stats list" where
  "reported_stats calls = concat (map stats_of_call calls)"

text \<open>Every put is matched by at most one \<open>task_done\<close>: the counter covers the queue.\<close>

definition queue_ok :: "server \<Rightarrow> bool" where
  "queue_ok st = (length (queue_items st) \<le> unfinished_tasks st)"

text \<open>
  A frame event for session \<open>s\<close> that passes the field checks of
  \<open>process_frame\<close>: both \<open>session_id\<close> and \<open>image\<close> are present and not empty.
\<close>

fun frame_for :: "string \<Rightarrow> event \<Rightarrow> bool" where
  "frame_for s (ProcessFrame c d now) =
     (data_session_id d = Some s \<and> s \<noteq> [] \<and> \<not> falsy (data_image d))"
| "frame_for s _ = False"

text \<open>Events that leave the registry's keys alone: frames, statistics and the worker.\<close>

fun keeps_sessions :: "event \<Rightarrow> bool" where
  "keeps_sessions (ProcessFrame c d now) = True"
| "keeps_sessions (GetSessionStats c d now) = True"
| "keeps_sessions (WorkerIteration t0 t1 t2) = True"
| "keeps_sessions (Connect c) = True"
| "keeps_sessions _ = False"

text \<open>The counter of a session, \<open>None\<close> when it is not registered.\<close>

definition frame_count_of :: "string \<Rightarrow> server \<Rightarrow> int option" where
  "frame_count_of s st = map_option frame_count (map_of (active_sessions st) s)"

text \<open>
  No session holds a detection, and no statistics reply sent so far reports one.
\<close>

definition no_detection :: "server \<Rightarrow> bool" where
  "no_detection st =
     (list_all (\<lambda>p. last_detection (snd p) = None) (active_sessions st) \<and>
      list_all (\<lambda>r. stats_last_detection r = None) (reported_stats (sio_calls st)))"

subsection \<open>Bounding boxes\<close>

text \<open>The box invariant as the specification words it.\<close>

definition bbox_ok :: "bbox \<Rightarrow> bool" where
  "bbox_ok b =
     (x1 b \<le> x2 b \<and> y1 b \<le> y2 b \<and>
      0 \<le> x1 b \<and> x1 b \<le> 1 \<and> 0 \<le> y1 b \<and> y1 b \<le> 1 \<and>
      0 \<le> x2 b \<and> x2 b \<le> 1 \<and> 0 \<le> y2 b \<and> y2 b \<le> 1 \<and>
      width b = x2 b - x1 b \<and> height b = y2 b - y1 b)"

text \<open>A raw box of the network that lies inside an image of the given size.\<close>

definition box_in_image :: "nat \<times> nat \<Rightarrow> raw_box \<Rightarrow> bool" where
  "box_in_image sz box =
     (case xyxy box of (bx1, by1, bx2, by2) \<Rightarrow>
        0 \<le> bx1 \<and> bx1 \<le> bx2 \<and> bx2 \<le> real (fst sz) \<and>
        0 \<le> by1 \<and> by1 \<le> by2 \<and> by2 \<le> real (snd sz))"

text \<open>The boxes that the network returns for a call of \<open>detect_objects\<close>.\<close>

definition inferred_boxes :: "yolo_detector \<Rightarrow> lib \<Rightarrow> image_arg \<Rightarrow> raw_box list" where
  "inferred_boxes self l arg =
     (case load_image l arg of
        Inl e \<Rightarrow> []
      | Inr img \<Rightarrow>
         (case preprocess_image self img of
            Inl e \<Rightarrow> []
          | Inr processed_image \<Rightarrow>
             (case model self processed_image of
                Inr (Some boxes # _) \<Rightarrow> boxes
              | _ \<Rightarrow> [])))"

subsection \<open>Sample data\<close>

definition sample_model :: "image \<Rightarrow> exn + raw_box list option list" where
  "sample_model img = Inr [Some [\<lparr>xyxy = (32, 24, 160, 120), conf = 9 / 10, cls = 0\<rparr>]]"

definition sample_detector :: yolo_detector where
  "sample_detector =
     \<lparr>conf_threshold = CONF_THRESHOLD, target_size = TARGET_SIZE, target_fps = TARGET_FPS,
      frame_interval = 1 / 15, class_names = coco_class_names, model = sample_model\<rparr>"

text \<open>A decoder that rejects the payload \<open>bad\<close> and opens everything else.\<close>

definition sample_lib :: lib where
  "sample_lib =
     \<lparr>image_open = (\<lambda>s. if s = ''bad'' then Inl DecodeError else Inr (Image (640, 480) []))\<rparr>"

definition frame :: "string \<Rightarrow> string \<Rightarrow> real \<Rightarrow> event_data" where
  "frame s i t = \<lparr>data_session_id = Some s, data_image = Some i, data_timestamp = Some t\<rparr>"

definition join_data :: "string \<Rightarrow> event_data" where
  "join_data s = \<lparr>data_session_id = Some s, data_image = None, data_timestamp = None\<rparr>"

text \<open>The boxes of a returned result; none if the call raised.\<close>

definition result_boxes :: "exn + detection_result \<Rightarrow> bbox list" where
  "result_boxes res = (case res of Inl e \<Rightarrow> [] | Inr r \<Rightarrow> map bbox (detections r))"

text \<open>The server just started, with the sample detector.\<close>

definition started_server :: server where
  "started_server = initial_server sample_detector"

text \<open>Client \<open>c1\<close> joins session \<open>s1\<close>.\<close>

definition joined_server :: server where
  "joined_server =
     run sample_lib [JoinDetectionSession ''c1'' (join_data ''s1'') 0] started_server"

text \<open>Eleven frames for \<open>s1\<close> with no pass of the worker in between.\<close>

definition frames11 :: "event list" where
  "frames11 = replicate 11 (ProcessFrame ''c1'' (frame ''s1'' ''img'' 1) 1)"

definition overload_events :: "event list" where
  "overload_events = JoinDetectionSession ''c1'' (join_data ''s1'') 0 # frames11"

text \<open>The server with ten frames of \<open>s1\<close> waiting: the queue is full.\<close>

definition busy_server :: server where
  "busy_server =
     run sample_lib (replicate 10 (ProcessFrame ''c1'' (frame ''s1'' ''img'' 1) 1)) joined_server"

text \<open>One frame of \<open>s1\<close> waiting.\<close>

definition queued_server :: server where
  "queued_server = run sample_lib [ProcessFrame ''c1'' (frame ''s1'' ''img'' 1) 1] joined_server"

text \<open>A frame that cannot be decoded, then a good one, both waiting.\<close>

definition two_jobs_server :: server where
  "two_jobs_server =
     run sample_lib
       [ProcessFrame ''c1'' (frame ''s1'' ''bad'' 1) 1,
        ProcessFrame ''c1'' (frame ''s1'' ''img'' 2) 2] joined_server"

text \<open>A session sends a frame that cannot be decoded; the worker takes it.\<close>

definition bad_frame_events :: "event list" where
  "bad_frame_events =
     [JoinDetectionSession ''c1'' (join_data ''s1'') 0,
      ProcessFrame ''c1'' (frame ''s1'' ''bad'' 1) 1,
      WorkerIteration 2 3 4]"

text \<open>Two sessions send frames in turn; the worker drains the queue.\<close>

definition two_session_events :: "event list" where
  "two_session_events =
     [JoinDetectionSession ''c1'' (join_data ''s1'') 0,
      JoinDetectionSession ''c2'' (join_data ''s2'') 0,
      ProcessFrame ''c1'' (frame ''s1'' ''img'' 1) 1,
      ProcessFrame ''c2'' (frame ''s2'' ''img'' 2) 2,
      ProcessFrame ''c1'' (frame ''s1'' ''img'' 3) 3,
      WorkerIteration 4 5 6,
      GetSessionStats ''c1'' (join_data ''s1'') 7,
      WorkerIteration 7 8 9,
      WorkerIteration 10 11 12]"

section \<open>Properties of the detector\<close>

lemma detect_objects_InrE:
  assumes "detect_objects self l arg t0 t1 = Inr r"
  obtains img p results dets where
    "load_image l arg = Inr img" "preprocess_image self img = Inr p"
    "model self p = Inr results"
    "(case results of [] \<Rightarrow> Inr [] | None # _ \<Rightarrow> Inr []
        | Some boxes # _ \<Rightarrow> collect_detections self p boxes []) = Inr dets"
    "r = \<lparr>detections = dets, processing_time = t1 - t0,
          fps = (if t1 - t0 > 0 then 1 / (t1 - t0) else 0),
          image_size = img_size p, detection_count = int (length dets)\<rparr>"
  using assms
  by (auto simp: detect_objects_def Let_def split: sum.splits list.splits option.splits)


lemma make_detection_extent:
  "make_detection self p box = Inr d \<Longrightarrow>
   width (bbox d) = x2 (bbox d) - x1 (bbox d) \<and> height (bbox d) = y2 (bbox d) - y1 (bbox d)"
  by (auto simp: make_detection_def Let_def split: prod.splits sum.splits)



lemmas detector_eval =
  detect_objects_def load_image_def split_last_def preprocess_image_def resize_def
  make_detection_def lookup_class_name_def Let_def result_boxes_def inferred_boxes_def
  box_in_image_def bbox_ok_def
  sample_detector_def sample_lib_def sample_model_def
  coco_class_names_def TARGET_SIZE_def TARGET_FPS_def CONF_THRESHOLD_def

text \<open>
  Claim C9. Every result returned by \<open>detect_objects\<close> has \<open>detection_count\<close> equal
  to the length of its \<open>detections\<close>, and \<open>fps\<close> equal to \<open>1 / processing_time\<close>
  when \<open>processing_time\<close> is positive and to \<open>0\<close> otherwise.
\<close>

theorem detect_objects_count_fps:
  assumes "detect_objects self l arg t0 t1 = Inr r"
  shows "detection_count r = int (length (detections r)) \<and>
         (processing_time r > 0 \<longrightarrow> fps r = 1 / processing_time r) \<and>
         (processing_time r \<le> 0 \<longrightarrow> fps r = 0)"
  using assms by (auto elim!: detect_objects_InrE)

theorem detect_objects_count_fps_witness:
  "detect_objects sample_detector sample_lib (ImgStr ''data:image/jpeg;base64,abc'') 10 (21 / 2) =
     Inr \<lparr>detections =
            [\<lparr>class_id = 0, class_name = ''person'', confidence = 9 / 10,
              bbox = \<lparr>x1 = 1 / 10, y1 = 1 / 10, x2 = 1 / 2, y2 = 1 / 2,
                      width = 2 / 5, height = 2 / 5\<rparr>\<rparr>],
          processing_time = 1 / 2, fps = 2, image_size = (320, 240), detection_count = 1\<rparr> \<and>
   (1::int) = int (length [0::nat]) \<and> (2::real) = 1 / (1 / 2)"
proof -
  have run: "detect_objects sample_detector sample_lib (ImgStr ''data:image/jpeg;base64,abc'') 10 (21 / 2) =
     Inr \<lparr>detections =
            [\<lparr>class_id = 0, class_name = ''person'', confidence = 9 / 10,
              bbox = \<lparr>x1 = 1 / 10, y1 = 1 / 10, x2 = 1 / 2, y2 = 1 / 2,
                      width = 2 / 5, height = 2 / 5\<rparr>\<rparr>],
          processing_time = 1 / 2, fps = 2, image_size = (320, 240), detection_count = 1\<rparr>"
    by (simp add: detector_eval)
  from detect_objects_count_fps [OF run] run show ?thesis by simp
qed



section \<open>Properties of the server\<close>

subsection \<open>Start-up\<close>

lemma initialize_detector_ok:
  "initialize_detector True (Inr sample_model)
     \<lparr>detector = None, queue_items = [], unfinished_tasks = 0, active_sessions = [],
      sio_calls = [], worker_alive = True\<rparr> = (True, started_server)"
  by (simp add: initialize_detector_def YOLODetector_def TARGET_FPS_def started_server_def
      initial_server_def sample_detector_def)

lemma initialize_detector_failed:
  "fst (initialize_detector model_exists loaded st) = False \<Longrightarrow>
   snd (initialize_detector model_exists loaded st) = st"
  by (auto simp: initialize_detector_def split: sum.splits if_splits)

subsection \<open>Dictionaries\<close>

lemma bump_frame_count_keys: "map fst (bump_frame_count s ps) = map fst ps"
  by (induction ps) (auto simp: bump_frame_count_def)

lemma dict_set_keys: "dict_mem k ps \<Longrightarrow> map fst (dict_set k v ps) = map fst ps"
  by (induction ps) (auto simp: dict_mem_def)

lemma map_of_dict_set: "map_of (dict_set k v ps) = (map_of ps)(k \<mapsto> v)"
  by (induction ps) (auto simp: fun_eq_iff)

lemma find_session_mem: "find_session c ps = Some s \<Longrightarrow> dict_mem s ps"
  by (induction ps) (auto simp: dict_mem_def split: if_splits)

lemma dict_del_not_mem: "\<not> dict_mem k (dict_del k ps)"
  by (auto simp: dict_mem_def dict_del_def)

lemma dict_set_all: "list_all P ps \<Longrightarrow> P (k, v) \<Longrightarrow> list_all P (dict_set k v ps)"
  by (induction ps) auto

lemma bump_frame_count_no_detection:
  "list_all (\<lambda>p. last_detection (snd p) = None) ps \<Longrightarrow>
   list_all (\<lambda>p. last_detection (snd p) = None) (bump_frame_count s ps)"
  by (induction ps) (auto simp: bump_frame_count_def)

lemma map_of_all: "list_all P ps \<Longrightarrow> map_of ps k = Some v \<Longrightarrow> P (k, v)"
  by (induction ps) (auto split: if_splits)

lemma map_of_bump_frame_count:
  "map_of (bump_frame_count s ps) k =
     (if k = s then map_option (\<lambda>v. v\<lparr>frame_count := frame_count v + 1\<rparr>) (map_of ps k)
      else map_of ps k)"
  by (induction ps) (auto simp: bump_frame_count_def)

lemma map_of_dict_mem: "dict_mem k ps \<longleftrightarrow> map_of ps k \<noteq> None"
  by (induction ps) (auto simp: dict_mem_def)

subsection \<open>One pass of the worker\<close>

lemmas worker_defs =
  detection_worker_step_def queue_get_def handle_exception_def task_done_def publish_def
  emit_def Let_def

lemmas handler_defs =
  connect_def disconnect_def join_detection_session_def process_frame_def
  get_session_stats_def emit_def enter_room_def put_nowait_def Let_def

lemma worker_step_frame:
  "active_sessions (snd (detection_worker_step l t0 t1 t2 st)) = active_sessions st \<and>
   detector (snd (detection_worker_step l t0 t1 t2 st)) = detector st \<and>
   worker_alive (snd (detection_worker_step l t0 t1 t2 st)) = worker_alive st"
  by (auto simp: worker_defs split: list.splits option.splits sum.splits prod.splits)

lemma worker_step_queue_ok:
  assumes "queue_ok st"
  shows "queue_ok (snd (detection_worker_step l t0 t1 t2 st)) \<and>
         (\<forall>e. fst (detection_worker_step l t0 t1 t2 st) \<noteq> Crashed e)"
  using assms
  by (auto simp: worker_defs queue_ok_def split: list.splits option.splits sum.splits prod.splits)

lemma worker_step_calls:
  "\<exists>ys. sio_calls (snd (detection_worker_step l t0 t1 t2 st)) = sio_calls st @ ys \<and>
        reported_stats ys = [] \<and>
        subseq (map result_key (published_results ys) @
                  map job_key (queue_items (snd (detection_worker_step l t0 t1 t2 st))))
               (map job_key (queue_items st))"
  by (auto simp: worker_defs reported_stats_def published_results_def result_key_def job_key_def
      split: list.splits option.splits sum.splits prod.splits)

lemma disconnect_removes:
  "find_session c (active_sessions st) = Some s \<Longrightarrow> s \<noteq> [] \<Longrightarrow>
   disconnect c st = st\<lparr>active_sessions := dict_del s (active_sessions st)\<rparr>"
  by (simp add: disconnect_def)

subsection \<open>Invariants of a run\<close>

lemma handle_event_queue_ok:
  assumes "queue_ok st" "worker_alive st"
  shows "queue_ok (handle_event l e st) \<and> worker_alive (handle_event l e st)"
proof (cases e)
  case (WorkerIteration t0 t1 t2)
  with assms worker_step_queue_ok [OF assms(1), of l t0 t1 t2]
    worker_step_frame [of l t0 t1 t2 st]
  show ?thesis
    by (auto split: prod.splits worker_outcome.splits)
qed (use assms in \<open>auto simp: handler_defs queue_ok_def split: option.splits sum.splits\<close>)

lemma run_queue_ok:
  "queue_ok st \<Longrightarrow> worker_alive st \<Longrightarrow>
   queue_ok (run l evs st) \<and> worker_alive (run l evs st)"
proof (induction evs arbitrary: st)
  case Nil
  then show ?case by simp
next
  case (Cons e evs)
  from handle_event_queue_ok [OF Cons.prems, of l e] Cons.IH show ?case by simp
qed

lemma reported_stats_append:
  "reported_stats (xs @ ys) = reported_stats xs @ reported_stats ys"
  by (simp add: reported_stats_def)

lemma handle_event_no_detection:
  assumes "no_detection st"
  shows "no_detection (handle_event l e st)"
proof (cases e)
  case (WorkerIteration t0 t1 t2)
  obtain ys where "sio_calls (snd (detection_worker_step l t0 t1 t2 st)) = sio_calls st @ ys"
    "reported_stats ys = []"
    using worker_step_calls [of l t0 t1 t2 st] by blast
  with assms WorkerIteration worker_step_frame [of l t0 t1 t2 st] show ?thesis
    by (auto simp: no_detection_def reported_stats_append split: prod.splits worker_outcome.splits)
next
  case (GetSessionStats c d now)
  with assms show ?thesis
    by (auto simp: no_detection_def reported_stats_def handler_defs
        dest: map_of_all split: option.splits)
next
  case (JoinDetectionSession c d now)
  with assms show ?thesis
    by (auto simp: no_detection_def reported_stats_def handler_defs
        intro: dict_set_all split: option.splits)
next
  case (ProcessFrame c d now)
  with assms show ?thesis
    by (auto simp: no_detection_def reported_stats_def handler_defs
        intro: bump_frame_count_no_detection split: option.splits sum.splits)
qed (use assms in \<open>auto simp: no_detection_def handler_defs dict_del_def list_all_iff split: option.splits\<close>)

lemma run_no_detection: "no_detection st \<Longrightarrow> no_detection (run l evs st)"
  by (induction evs arbitrary: st) (auto intro: handle_event_no_detection)

lemma handle_event_frame_count:
  assumes "detector st \<noteq> None" "keeps_sessions e"
  shows "frame_count_of s (handle_event l e st) =
           map_option (\<lambda>n. n + (if frame_for s e then 1 else 0)) (frame_count_of s st) \<and>
         detector (handle_event l e st) \<noteq> None"
proof (cases e)
  case (WorkerIteration t0 t1 t2)
  with assms worker_step_frame [of l t0 t1 t2 st] show ?thesis
    by (auto simp: frame_count_of_def option.map_ident split: prod.splits worker_outcome.splits)
next
  case (ProcessFrame c d now)
  with assms show ?thesis
    by (auto simp: frame_count_of_def handler_defs falsy_def map_of_bump_frame_count
        map_of_dict_mem option.map_comp comp_def option.map_ident
        split: option.splits sum.splits)
next
  case (GetSessionStats c d now)
  with assms show ?thesis
    by (auto simp: frame_count_of_def handler_defs option.map_ident split: option.splits)
qed (use assms in \<open>auto simp: frame_count_of_def handler_defs option.map_ident\<close>)

lemma run_frame_count:
  assumes "detector st \<noteq> None" "list_all keeps_sessions evs"
  shows "frame_count_of s (run l evs st) =
           map_option (\<lambda>n. n + int (length (filter (frame_for s) evs))) (frame_count_of s st)"
  using assms
proof (induction evs arbitrary: st)
  case Nil
  then show ?case by (simp add: option.map_ident)
next
  case (Cons e evs)
  from Cons.prems have k: "keeps_sessions e" "list_all keeps_sessions evs" by auto
  from handle_event_frame_count [OF Cons.prems(1) k(1), of s l]
  have h: "frame_count_of s (handle_event l e st) =
           map_option (\<lambda>n. n + (if frame_for s e then 1 else 0)) (frame_count_of s st)"
    and d: "detector (handle_event l e st) \<noteq> None" by auto
  from Cons.IH [OF d k(2)] h show ?case
    by (cases "frame_count_of s st") auto
qed

lemma published_results_append:
  "published_results (xs @ ys) = published_results xs @ published_results ys"
  by (simp add: published_results_def)

lemma handle_event_order:
  "\<exists>ys. sio_calls (handle_event l e st) = sio_calls st @ ys \<and>
        subseq (map result_key (published_results ys) @
                  map job_key (queue_items (handle_event l e st)))
               (map job_key (queue_items st) @ map job_key (enqueued_by e st))"
proof (cases e)
  case (WorkerIteration t0 t1 t2)
  obtain ys where ys: "sio_calls (snd (detection_worker_step l t0 t1 t2 st)) = sio_calls st @ ys"
    "subseq (map result_key (published_results ys) @
                  map job_key (queue_items (snd (detection_worker_step l t0 t1 t2 st))))
               (map job_key (queue_items st))"
    using worker_step_calls [of l t0 t1 t2 st] by blast
  show ?thesis
  proof (cases "worker_alive st")
    case True
    with ys WorkerIteration show ?thesis
      by (auto simp: enqueued_by_def split: prod.splits worker_outcome.splits)
  next
    case False
    with WorkerIteration show ?thesis
      by (simp add: enqueued_by_def published_results_def)
  qed
next
  case (ProcessFrame c d now)
  then show ?thesis
    by (auto simp: enqueued_by_def handler_defs published_results_def
        split: option.splits sum.splits)
next
  case (GetSessionStats c d now)
  then show ?thesis
    by (auto simp: enqueued_by_def handler_defs published_results_def split: option.splits)
next
  case (JoinDetectionSession c d now)
  then show ?thesis
    by (auto simp: enqueued_by_def handler_defs published_results_def split: option.splits)
qed (auto simp: enqueued_by_def handler_defs published_results_def split: option.splits)

lemma run_order:
  "\<exists>ys. sio_calls (run l evs st) = sio_calls st @ ys \<and>
        subseq (map result_key (published_results ys) @ map job_key (queue_items (run l evs st)))
               (map job_key (queue_items st @ accepted l evs st))"
proof (induction evs arbitrary: st)
  case Nil
  show ?case by (simp add: published_results_def)
next
  case (Cons e evs)
  let ?st1 = "handle_event l e st"
  obtain ys where ys: "sio_calls ?st1 = sio_calls st @ ys"
    "subseq (map result_key (published_results ys) @ map job_key (queue_items ?st1))
            (map job_key (queue_items st) @ map job_key (enqueued_by e st))"
    using handle_event_order [of l e st] by blast
  obtain zs where zs: "sio_calls (run l evs ?st1) = sio_calls ?st1 @ zs"
    "subseq (map result_key (published_results zs) @ map job_key (queue_items (run l evs ?st1)))
            (map job_key (queue_items ?st1 @ accepted l evs ?st1))"
    using Cons.IH [of ?st1] by blast
  let ?Y = "map result_key (published_results ys)"
  let ?Z = "map result_key (published_results zs)"
  let ?A = "map job_key (accepted l evs ?st1)"
  have a: "subseq (?Y @ ?Z @ map job_key (queue_items (run l evs ?st1)))
                  (?Y @ map job_key (queue_items ?st1) @ ?A)"
    using zs(2) by (simp add: subseq_append')
  have b: "subseq (?Y @ map job_key (queue_items ?st1) @ ?A)
                  (map job_key (queue_items st) @ map job_key (enqueued_by e st) @ ?A)"
    using ys(2)
      subseq_append [of "?Y @ map job_key (queue_items ?st1)" ?A
        "map job_key (queue_items st) @ map job_key (enqueued_by e st)"]
    by simp
  have "subseq (?Y @ ?Z @ map job_key (queue_items (run l evs ?st1)))
               (map job_key (queue_items st) @ map job_key (enqueued_by e st) @ ?A)"
    using a b by (rule subseq_order.order_trans)
  then have "subseq (map result_key (published_results (ys @ zs)) @
                  map job_key (queue_items (run l (e # evs) st)))
               (map job_key (queue_items st @ accepted l (e # evs) st))"
    by (simp add: published_results_append)
  moreover have "sio_calls (run l (e # evs) st) = sio_calls st @ (ys @ zs)"
    using ys(1) zs(1) by simp
  ultimately show ?case by blast
qed

subsection \<open>Evaluation of the sample runs\<close>

lemmas run_eval =
  run.simps handle_event.simps accepted.simps enqueued_by_def handler_defs worker_defs
  initial_server_def frame_def join_data_def falsy_def dict_mem_def dict_del_def
  bump_frame_count_def frame_count_of_def maxsize_def queue_ok_def
  published_results_def reported_stats_def result_key_def job_key_def for_session_def
  new_calls_def started_server_def joined_server_def busy_server_def queued_server_def
  two_jobs_server_def frames11_def overload_events_def bad_frame_events_def
  two_session_events_def eval_nat_numeral

lemma sample_bad: "detect_objects sample_detector sample_lib (ImgStr ''bad'') t0 t1 = Inl DecodeError"
  by (simp add: detector_eval)

lemma sample_good:
  "detect_objects sample_detector sample_lib (ImgStr ''img'') t0 t1 =
     Inr \<lparr>detections =
            [\<lparr>class_id = 0, class_name = ''person'', confidence = 9 / 10,
              bbox = \<lparr>x1 = 1 / 10, y1 = 1 / 10, x2 = 1 / 2, y2 = 1 / 2,
                      width = 2 / 5, height = 2 / 5\<rparr>\<rparr>],
          processing_time = t1 - t0, fps = (if 0 < t1 - t0 then 1 / (t1 - t0) else 0),
          image_size = (320, 240), detection_count = 1\<rparr>"
  by (simp add: detector_eval)

subsection \<open>The claims\<close>

text \<open>
  Claim C8. A \<open>process_frame\<close> event whose \<open>session_id\<close> or \<open>image\<close> is
  missing (or empty) makes the handler send one \<open>error\<close> event to the caller and
  nothing else: the queue, the counters and the registry are as before. The message is
  the validation message whenever the detector is initialised, which it is in every
  serving process.
\<close>

theorem process_frame_missing_field:
  assumes "falsy (data_session_id data) \<or> falsy (data_image data)"
  shows "process_frame c data now st =
           st\<lparr>sio_calls := sio_calls st @
              [Emit ''error''
                 (ErrorMessage (if detector st = None then ''Detector not initialized''
                                else ''Session ID and image data required'')) c]\<rparr>"
  using assms by (simp add: process_frame_def emit_def Let_def)

theorem process_frame_missing_field_witness:
  "process_frame ''c1''
     \<lparr>data_session_id = Some ''s1'', data_image = None, data_timestamp = None\<rparr> 5 joined_server =
   joined_server\<lparr>sio_calls := sio_calls joined_server @
     [Emit ''error'' (ErrorMessage ''Session ID and image data required'') ''c1'']\<rparr>"
  using process_frame_missing_field
    [where data = "\<lparr>data_session_id = Some ''s1'', data_image = None, data_timestamp = None\<rparr>"
       and c = "''c1''" and now = 5 and st = joined_server]
  by (simp add: run_eval)

text \<open>
  Claim C4. A \<open>process_frame\<close> event for a registered session that finds the queue
  full returns at once: the handler sends to the caller a \<open>detection_results\<close> reply
  with an error text, no detections, \<open>processing_time = 0\<close> and \<open>fps = 0\<close>; the
  queue is as before and no session's \<open>last_detection\<close> changes.
\<close>

theorem process_frame_queue_full:
  assumes "detector st \<noteq> None"
    and "data_session_id data = Some s" "s \<noteq> []"
    and "data_image data = Some i" "i \<noteq> []"
    and "dict_mem s (active_sessions st)"
    and "maxsize \<le> length (queue_items st)"
  shows "process_frame c data now st =
           st\<lparr>active_sessions := bump_frame_count s (active_sessions st),
              sio_calls := sio_calls st @
                [Emit ''detection_results''
                   (FrameSkipped
                      \<lparr>skipped_session_id = s,
                       skipped_timestamp = (case data_timestamp data of None \<Rightarrow> now | Some t \<Rightarrow> t),
                       skipped_error = ''Detection queue full, frame skipped'',
                       skipped_detections = [], skipped_processing_time = 0,
                       skipped_fps = 0\<rparr>) c]\<rparr> \<and>
         queue_items (process_frame c data now st) = queue_items st \<and>
         map (\<lambda>p. (fst p, last_detection (snd p))) (active_sessions (process_frame c data now st)) =
           map (\<lambda>p. (fst p, last_detection (snd p))) (active_sessions st)"
proof -
  have eq: "process_frame c data now st =
           st\<lparr>active_sessions := bump_frame_count s (active_sessions st),
              sio_calls := sio_calls st @
                [Emit ''detection_results''
                   (FrameSkipped
                      \<lparr>skipped_session_id = s,
                       skipped_timestamp = (case data_timestamp data of None \<Rightarrow> now | Some t \<Rightarrow> t),
                       skipped_error = ''Detection queue full, frame skipped'',
                       skipped_detections = [], skipped_processing_time = 0,
                       skipped_fps = 0\<rparr>) c]\<rparr>"
    using assms by (auto simp: process_frame_def emit_def Let_def falsy_def put_nowait_def)
  have "map (\<lambda>p. (fst p, last_detection (snd p))) (bump_frame_count s (active_sessions st)) =
        map (\<lambda>p. (fst p, last_detection (snd p))) (active_sessions st)"
    by (induction "active_sessions st") (auto simp: bump_frame_count_def)
  with eq show ?thesis by simp
qed

theorem process_frame_queue_full_witness:
  "sio_calls (process_frame ''c1'' (frame ''s1'' ''img'' 2) 2 busy_server) =
     sio_calls busy_server @
       [Emit ''detection_results''
          (FrameSkipped
             \<lparr>skipped_session_id = ''s1'', skipped_timestamp = 2,
              skipped_error = ''Detection queue full, frame skipped'',
              skipped_detections = [], skipped_processing_time = 0, skipped_fps = 0\<rparr>) ''c1''] \<and>
   queue_items (process_frame ''c1'' (frame ''s1'' ''img'' 2) 2 busy_server) =
     queue_items busy_server \<and>
   length (queue_items busy_server) = 10"
proof -
  have h: "detector busy_server \<noteq> None" "data_session_id (frame ''s1'' ''img'' 2) = Some ''s1''"
    "''s1'' \<noteq> []" "data_image (frame ''s1'' ''img'' 2) = Some ''img''" "''img'' \<noteq> []"
    "dict_mem ''s1'' (active_sessions busy_server)"
    "maxsize \<le> length (queue_items busy_server)"
    by (simp_all add: run_eval)
  have n: "length (queue_items busy_server) = 10" "data_timestamp (frame ''s1'' ''img'' 2) = Some 2"
    by (simp_all add: run_eval)
  from process_frame_queue_full [OF h, of "''c1''" 2] n show ?thesis
    by simp
qed

text \<open>
  Claim C7. A join with a \<open>session_id\<close> that is already registered overwrites the
  entry: afterwards the session has \<open>frame_count = 0\<close>, \<open>joined_at\<close> the time of
  the new join, \<open>last_detection = None\<close> and the new client as its \<open>sid\<close>; the
  other sessions are untouched and the registry still holds one entry for the session.
\<close>

theorem rejoin_overwrites:
  assumes "data_session_id data = Some s" "s \<noteq> []"
    and "dict_mem s (active_sessions st)"
  shows "map_of (active_sessions (join_detection_session c data now st)) s =
           Some \<lparr>sid = c, joined_at = now, frame_count = 0, last_detection = None\<rparr> \<and>
         map fst (active_sessions (join_detection_session c data now st)) =
           map fst (active_sessions st) \<and>
         (\<forall>k. k \<noteq> s \<longrightarrow>
            map_of (active_sessions (join_detection_session c data now st)) k =
            map_of (active_sessions st) k) \<and>
         (distinct (map fst (active_sessions st)) \<longrightarrow>
            filter (\<lambda>p. fst p = s) (active_sessions (join_detection_session c data now st)) =
              [(s, \<lparr>sid = c, joined_at = now, frame_count = 0, last_detection = None\<rparr>)])"
proof -
  let ?v = "\<lparr>sid = c, joined_at = now, frame_count = 0, last_detection = None\<rparr>"
  have a: "active_sessions (join_detection_session c data now st) =
           dict_set s ?v (active_sessions st)"
    using assms(1,2)
    by (simp add: join_detection_session_def emit_def enter_room_def Let_def)
  have d: "distinct (map fst ps) \<Longrightarrow> dict_mem s ps \<Longrightarrow>
           filter (\<lambda>p. fst p = s) (dict_set s ?v ps) = [(s, ?v)]" for ps
    by (induction ps) (auto simp: dict_mem_def filter_empty_conv image_iff)
  show ?thesis
    using assms(3) d [of "active_sessions st"]
    by (simp add: a dict_set_keys map_of_dict_set)
qed

theorem rejoin_overwrites_witness:
  "map_of (active_sessions queued_server) ''s1'' =
     Some \<lparr>sid = ''c1'', joined_at = 0, frame_count = 1, last_detection = None\<rparr> \<and>
   active_sessions (join_detection_session ''c2'' (join_data ''s1'') 9 queued_server) =
     [(''s1'', \<lparr>sid = ''c2'', joined_at = 9, frame_count = 0, last_detection = None\<rparr>)]"
proof -
  have h: "data_session_id (join_data ''s1'') = Some ''s1''" "''s1'' \<noteq> []"
    "dict_mem ''s1'' (active_sessions queued_server)"
    by (simp_all add: run_eval)
  have b: "map_of (active_sessions queued_server) ''s1'' =
     Some \<lparr>sid = ''c1'', joined_at = 0, frame_count = 1, last_detection = None\<rparr>"
    "map fst (active_sessions queued_server) = [''s1'']"
    by (simp_all add: run_eval)
  from rejoin_overwrites [OF h, of "''c2''" 9] b
  have "filter (\<lambda>p. fst p = ''s1'')
          (active_sessions (join_detection_session ''c2'' (join_data ''s1'') 9 queued_server)) =
        [(''s1'', \<lparr>sid = ''c2'', joined_at = 9, frame_count = 0, last_detection = None\<rparr>)]"
    and "map fst (active_sessions (join_detection_session ''c2'' (join_data ''s1'') 9 queued_server)) =
         [''s1'']"
    by simp_all
  then have "active_sessions (join_detection_session ''c2'' (join_data ''s1'') 9 queued_server) =
     [(''s1'', \<lparr>sid = ''c2'', joined_at = 9, frame_count = 0, last_detection = None\<rparr>)]"
    by (cases "active_sessions (join_detection_session ''c2'' (join_data ''s1'') 9 queued_server)")
      (auto split: if_splits)
  with b(1) show ?thesis by simp
qed

text \<open>
  Claim C6. When the client of a session disconnects while a job of the session is
  waiting or being processed, the session is no longer registered at publication: the
  block under the lock emits nothing, raises nothing, and the pass of the worker ends
  normally with the result dropped.
\<close>

theorem publish_after_removal:
  assumes "find_session c (active_sessions st) = Some s" "s \<noteq> []"
  shows "\<not> dict_mem s (active_sessions (disconnect c st)) \<and>
         (\<forall>r. session_id r = s \<longrightarrow> publish r (disconnect c st) = disconnect c st) \<and>
         (\<forall>i ts q d res.
            queue_items st = (s, i, ts) # q \<and> detector st = Some d \<and> queue_ok st \<and>
            detect_objects d l (ImgStr i) t0 t1 = Inr res \<longrightarrow>
            detection_worker_step l t0 t1 t2 (disconnect c st) =
              (Dropped, (disconnect c st)\<lparr>queue_items := q,
                                           unfinished_tasks := unfinished_tasks st - 1\<rparr>))"
proof -
  have dis: "disconnect c st = st\<lparr>active_sessions := dict_del s (active_sessions st)\<rparr>"
    using assms by (rule disconnect_removes)
  have gone: "\<not> dict_mem s (active_sessions (disconnect c st))"
    by (simp add: dis dict_del_not_mem)
  have pub: "\<forall>r. session_id r = s \<longrightarrow> publish r (disconnect c st) = disconnect c st"
    using gone by (simp add: publish_def)
  have step: "detection_worker_step l t0 t1 t2 (disconnect c st) =
              (Dropped, (disconnect c st)\<lparr>queue_items := q,
                                           unfinished_tasks := unfinished_tasks st - 1\<rparr>)"
    if "queue_items st = (s, i, ts) # q" "detector st = Some d" "queue_ok st"
       "detect_objects d l (ImgStr i) t0 t1 = Inr res" for i ts q d res
    using that gone
    by (simp add: detection_worker_step_def queue_get_def dis publish_def task_done_def
        queue_ok_def Let_def dict_del_not_mem)
  from gone pub step show ?thesis by blast
qed

theorem publish_after_removal_witness:
  "dict_mem ''s1'' (active_sessions queued_server) \<and>
   queue_items (disconnect ''c1'' queued_server) = [(''s1'', ''img'', 1)] \<and>
   fst (detection_worker_step sample_lib 2 3 4 (disconnect ''c1'' queued_server)) = Dropped \<and>
   sio_calls (snd (detection_worker_step sample_lib 2 3 4 (disconnect ''c1'' queued_server))) =
     sio_calls queued_server"
proof -
  have h: "find_session ''c1'' (active_sessions queued_server) = Some ''s1''" "''s1'' \<noteq> []"
    by (simp_all add: run_eval)
  have g: "queue_items queued_server = (''s1'', ''img'', 1) # [] \<and>
           detector queued_server = Some sample_detector \<and> queue_ok queued_server \<and>
           detect_objects sample_detector sample_lib (ImgStr ''img'') 2 3 =
             Inr \<lparr>detections =
            [\<lparr>class_id = 0, class_name = ''person'', confidence = 9 / 10,
              bbox = \<lparr>x1 = 1 / 10, y1 = 1 / 10, x2 = 1 / 2, y2 = 1 / 2,
                      width = 2 / 5, height = 2 / 5\<rparr>\<rparr>],
          processing_time = 3 - 2, fps = (if (0::real) < 3 - 2 then 1 / (3 - 2) else 0),
          image_size = (320, 240), detection_count = 1\<rparr>"
    using sample_good [of 2 3] by (simp add: run_eval)
  from publish_after_removal [OF h, of sample_lib 2 3 4]
  have "\<forall>i ts q d res.
            queue_items queued_server = (''s1'', i, ts) # q \<and>
            detector queued_server = Some d \<and> queue_ok queued_server \<and>
            detect_objects d sample_lib (ImgStr i) 2 3 = Inr res \<longrightarrow>
            detection_worker_step sample_lib 2 3 4 (disconnect ''c1'' queued_server) =
              (Dropped, (disconnect ''c1'' queued_server)\<lparr>queue_items := q,
                 unfinished_tasks := unfinished_tasks queued_server - 1\<rparr>)"
    by blast
  with g have "detection_worker_step sample_lib 2 3 4 (disconnect ''c1'' queued_server) =
              (Dropped, (disconnect ''c1'' queued_server)\<lparr>queue_items := [],
                 unfinished_tasks := unfinished_tasks queued_server - 1\<rparr>)"
    by blast
  moreover have "dict_mem ''s1'' (active_sessions queued_server)"
    "queue_items (disconnect ''c1'' queued_server) = [(''s1'', ''img'', 1)]"
    "sio_calls (disconnect ''c1'' queued_server) = sio_calls queued_server"
    by (simp_all add: run_eval)
  ultimately show ?thesis by simp
qed

text \<open>
  Claim C1, as stated, asks that a job whose decoding or inference raises is answered
  with an error-tagged result. The \<open>except\<close> clause of the worker only prints: the
  frame below is accepted, its session stays registered, the worker takes the job, and
  no reply of any kind follows the acknowledgement of the join.
\<close>

theorem worker_failure_reply_counterexample:
  "accepted sample_lib bad_frame_events started_server = [(''s1'', ''bad'', 1)] \<and>
   queue_items (run sample_lib bad_frame_events started_server) = [] \<and>
   dict_mem ''s1'' (active_sessions (run sample_lib bad_frame_events started_server)) \<and>
   worker_alive (run sample_lib bad_frame_events started_server) \<and>
   sio_calls (run sample_lib bad_frame_events started_server) =
     [EnterRoom ''c1'' ''s1'',
      Emit ''joined_session''
        (JoinedSession
           \<lparr>joined_session_id = ''s1'', status = ''ready'',
            detector_info =
              \<lparr>info_model = ''YOLOv5n'', info_target_size = TARGET_SIZE,
               info_target_fps = TARGET_FPS, info_conf_threshold = CONF_THRESHOLD\<rparr>\<rparr>)
        ''c1'']"
  by (simp add: run_eval sample_bad)

text \<open>
  Claim C1, amended. For every job taken by the worker: if decoding or inference
  raises, the exception is caught, nothing is emitted for the job, and the job is gone
  from the queue; if detection succeeds, exactly one \<open>detection_results\<close> is emitted
  to the room of the session when the session is registered, and none otherwise. No
  exception leaves the loop, and the worker thread stays alive through every
  continuation of the run.
\<close>

theorem worker_failure_not_published:
  assumes "queue_ok st" "worker_alive st"
    and "queue_items st = (s, i, ts) # q" "detector st = Some d"
  shows "(\<forall>e. detect_objects d l (ImgStr i) t0 t1 = Inl e \<longrightarrow>
            detection_worker_step l t0 t1 t2 st =
              (Failed e, st\<lparr>queue_items := q,
                            unfinished_tasks :=
                              (if q = [] then unfinished_tasks st else unfinished_tasks st - 1)\<rparr>)) \<and>
         (\<forall>res. detect_objects d l (ImgStr i) t0 t1 = Inr res \<longrightarrow>
            detection_worker_step l t0 t1 t2 st =
              (if dict_mem s (active_sessions st) then Published else Dropped,
               st\<lparr>queue_items := q, unfinished_tasks := unfinished_tasks st - 1,
                  sio_calls := sio_calls st @
                    (if dict_mem s (active_sessions st) then
                       [Emit ''detection_results''
                          (DetectionResults
                             \<lparr>detections = detections res,
                              processing_time = processing_time res, fps = fps res,
                              image_size = image_size res,
                              detection_count = detection_count res,
                              session_id = s, timestamp = ts, processing_timestamp = t2\<rparr>) s]
                     else [])\<rparr>)) \<and>
         (\<forall>e. fst (detection_worker_step l t0 t1 t2 st) \<noteq> Crashed e) \<and>
         (\<forall>evs. worker_alive (run l evs st))"
proof -
  have u: "Suc (length q) \<le> unfinished_tasks st"
    using assms(1,3) by (simp add: queue_ok_def)
  have f: "detection_worker_step l t0 t1 t2 st =
              (Failed e, st\<lparr>queue_items := q,
                            unfinished_tasks :=
                              (if q = [] then unfinished_tasks st else unfinished_tasks st - 1)\<rparr>)"
    if "detect_objects d l (ImgStr i) t0 t1 = Inl e" for e
    using that assms(3,4) u
    by (auto simp: detection_worker_step_def queue_get_def handle_exception_def task_done_def)
  have r: "detection_worker_step l t0 t1 t2 st =
              (if dict_mem s (active_sessions st) then Published else Dropped,
               st\<lparr>queue_items := q, unfinished_tasks := unfinished_tasks st - 1,
                  sio_calls := sio_calls st @
                    (if dict_mem s (active_sessions st) then
                       [Emit ''detection_results''
                          (DetectionResults
                             \<lparr>detections = detections res,
                              processing_time = processing_time res, fps = fps res,
                              image_size = image_size res,
                              detection_count = detection_count res,
                              session_id = s, timestamp = ts, processing_timestamp = t2\<rparr>) s]
                     else [])\<rparr>)"
    if "detect_objects d l (ImgStr i) t0 t1 = Inr res" for res
    using that assms(3,4) u
    by (auto simp: detection_worker_step_def queue_get_def publish_def emit_def task_done_def
        Let_def)
  have c: "\<forall>e. fst (detection_worker_step l t0 t1 t2 st) \<noteq> Crashed e"
    using worker_step_queue_ok [OF assms(1)] by blast
  have a: "\<forall>evs. worker_alive (run l evs st)"
    using run_queue_ok [OF assms(1,2)] by blast
  from f r c a show ?thesis by blast
qed

theorem worker_failure_not_published_witness:
  "fst (detection_worker_step sample_lib 3 4 5 two_jobs_server) = Failed DecodeError \<and>
   sio_calls (snd (detection_worker_step sample_lib 3 4 5 two_jobs_server)) =
     sio_calls two_jobs_server \<and>
   queue_items (snd (detection_worker_step sample_lib 3 4 5 two_jobs_server)) =
     [(''s1'', ''img'', 2)] \<and>
   worker_alive (run sample_lib [WorkerIteration 3 4 5, WorkerIteration 6 7 8] two_jobs_server)"
proof -
  have h: "queue_ok two_jobs_server" "worker_alive two_jobs_server"
    "queue_items two_jobs_server = (''s1'', ''bad'', 1) # [(''s1'', ''img'', 2)]"
    "detector two_jobs_server = Some sample_detector"
    by (simp_all add: run_eval)
  from worker_failure_not_published [OF h, of sample_lib 3 4 5] sample_bad [of 3 4]
  have a: "detection_worker_step sample_lib 3 4 5 two_jobs_server =
             (Failed DecodeError,
              two_jobs_server\<lparr>queue_items := [(''s1'', ''img'', 2)],
                unfinished_tasks := unfinished_tasks two_jobs_server - 1\<rparr>)"
    and b: "\<forall>evs. worker_alive (run sample_lib evs two_jobs_server)"
    by simp_all
  from b have "worker_alive
      (run sample_lib [WorkerIteration 3 4 5, WorkerIteration 6 7 8] two_jobs_server)"
    by (rule spec)
  with a show ?thesis by (simp del: run.simps)
qed

text \<open>
  Claim C2, as stated, counts only the frames that were enqueued. \<open>process_frame\<close>
  increments \<open>frame_count\<close> before \<open>put_nowait\<close>: of eleven frames sent to a
  session while the worker is idle, ten are enqueued and the eleventh is rejected, and
  the counter is eleven.
\<close>

theorem frame_count_accepted_counterexample:
  "frame_count_of ''s1'' (run sample_lib overload_events started_server) = Some 11 \<and>
   length (accepted sample_lib overload_events started_server) = 10"
  by (simp add: run_eval)

text \<open>
  Claim C2, amended. For a registered session and every sequence of frame events,
  statistics requests, connections and passes of the worker, \<open>frame_count\<close> grows by
  the number of frame events that name the session and carry an image, whether the frame
  was enqueued or rejected because the queue was full.
\<close>

theorem frame_count_counts_received:
  assumes "detector st \<noteq> None" "list_all keeps_sessions evs"
    and "map_of (active_sessions st) s = Some info"
  shows "frame_count_of s (run l evs st) =
           Some (frame_count info + int (length (filter (frame_for s) evs)))"
  using run_frame_count [OF assms(1,2), of s l] assms(3)
  by (simp add: frame_count_of_def)

theorem frame_count_counts_received_witness:
  "frame_count_of ''s1'' (run sample_lib (frames11 @ [WorkerIteration 2 3 4]) joined_server) =
     Some 11"
proof -
  have h: "detector joined_server \<noteq> None"
    "list_all keeps_sessions (frames11 @ [WorkerIteration 2 3 4])"
    "map_of (active_sessions joined_server) ''s1'' =
       Some \<lparr>sid = ''c1'', joined_at = 0, frame_count = 0, last_detection = None\<rparr>"
    by (simp_all add: run_eval)
  have n: "length (filter (frame_for ''s1'') (frames11 @ [WorkerIteration 2 3 4])) = 11"
    by (simp add: run_eval)
  from frame_count_counts_received [OF h, of sample_lib] n show ?thesis
    by simp
qed

text \<open>
  Claim C5. In every run, the results emitted for one session, read as
  \<open>(session_id, timestamp)\<close>, form a subsequence of the jobs of that session in the
  order in which they were enqueued (those waiting at the start first): the queue is
  first-in first-out and the worker emits one job at a time.
\<close>

theorem results_in_submission_order:
  "subseq (for_session s (map result_key (published_results (new_calls st (run l evs st)))))
          (for_session s (map job_key (queue_items st @ accepted l evs st)))"
proof -
  obtain ys where ys: "sio_calls (run l evs st) = sio_calls st @ ys"
    "subseq (map result_key (published_results ys) @ map job_key (queue_items (run l evs st)))
            (map job_key (queue_items st @ accepted l evs st))"
    using run_order [of l evs st] by blast
  have "subseq (map result_key (published_results ys))
               (map result_key (published_results ys) @ map job_key (queue_items (run l evs st)))"
    by (rule subseq_rev_drop_many) simp
  from this ys(2) have "subseq (map result_key (published_results ys))
                          (map job_key (queue_items st @ accepted l evs st))"
    by (rule subseq_order.order_trans)
  moreover have "new_calls st (run l evs st) = ys"
    by (simp add: new_calls_def ys(1))
  ultimately show ?thesis
    unfolding for_session_def by (simp only: subseq_filter)
qed

theorem results_in_submission_order_witness:
  "for_session ''s1'' (map result_key (published_results
      (new_calls started_server (run sample_lib two_session_events started_server)))) =
     [(''s1'', 1), (''s1'', 3)] \<and>
   for_session ''s1'' (map job_key
      (queue_items started_server @ accepted sample_lib two_session_events started_server)) =
     [(''s1'', 1), (''s1'', 3)] \<and>
   subseq [(''s1'', 1::real), (''s1'', 3)] [(''s1'', 1), (''s1'', 3)]"
proof -
  have a: "for_session ''s1'' (map result_key (published_results
      (new_calls started_server (run sample_lib two_session_events started_server)))) =
     [(''s1'', 1), (''s1'', 3)]"
    by (simp add: run_eval sample_good)
  have b: "for_session ''s1'' (map job_key
      (queue_items started_server @ accepted sample_lib two_session_events started_server)) =
     [(''s1'', 1), (''s1'', 3)]"
    by (simp add: run_eval sample_good)
  from results_in_submission_order [of "''s1''" started_server sample_lib two_session_events]
  show ?thesis unfolding a b by (simp only: a b simp_thms)
qed

text \<open>
  Claim C10. From the start of the server on, through every run, every registered
  session has \<open>last_detection = None\<close>, and every \<open>session_stats\<close> reply that was
  sent reports \<open>last_detection\<close> as \<open>None\<close>.
\<close>

theorem last_detection_always_null:
  "list_all (\<lambda>p. last_detection (snd p) = None)
     (active_sessions (run l evs (initial_server d))) \<and>
   list_all (\<lambda>r. stats_last_detection r = None)
     (reported_stats (sio_calls (run l evs (initial_server d))))"
proof -
  have "no_detection (initial_server d)"
    by (simp add: no_detection_def initial_server_def reported_stats_def)
  from run_no_detection [OF this, of l evs] show ?thesis
    by (simp add: no_detection_def)
qed

theorem last_detection_always_null_witness:
  "map stats_last_detection (reported_stats
      (sio_calls (run sample_lib two_session_events (initial_server sample_detector)))) = [None] \<and>
   map (last_detection \<circ> snd)
      (active_sessions (run sample_lib two_session_events (initial_server sample_detector))) =
     [None, None]"
proof -
  have a: "length (reported_stats
      (sio_calls (run sample_lib two_session_events (initial_server sample_detector)))) = 1"
    and b: "length (active_sessions
      (run sample_lib two_session_events (initial_server sample_detector))) = 2"
    by (simp_all add: run_eval sample_good)
  from last_detection_always_null [of sample_lib two_session_events sample_detector]
  have c: "\<forall>r\<in>set (reported_stats
      (sio_calls (run sample_lib two_session_events (initial_server sample_detector)))).
        stats_last_detection r = None"
    and d: "\<forall>p\<in>set (active_sessions
      (run sample_lib two_session_events (initial_server sample_detector))).
        last_detection (snd p) = None"
    by (simp_all add: list_all_iff)
  from a c have "map stats_last_detection (reported_stats
      (sio_calls (run sample_lib two_session_events (initial_server sample_detector)))) = [None]"
    by (cases "reported_stats
      (sio_calls (run sample_lib two_session_events (initial_server sample_detector)))") auto
  moreover from b d have "map (last_detection \<circ> snd)
      (active_sessions (run sample_lib two_session_events (initial_server sample_detector))) =
     [None, None]"
    by (auto simp: length_Suc_conv eval_nat_numeral)
  ultimately show ?thesis by simp
qed

end
